theory Spec2Isabelle
  imports Complex_Main
begin

section \<open>Python values\<close>

text \<open>
  A Python \<open>str\<close> is a sequence of Unicode code points, and \<open>len\<close> counts code points.
  It is modelled as a list of natural numbers; \<open>ustr\<close> embeds an ASCII literal.
\<close>

type_synonym pystr = "nat list"

definition ustr :: "string \<Rightarrow> pystr" where
  "ustr s = map of_char s"

text \<open>
  \<open>str.strip()\<close> removes leading and trailing white space, as CPython's
  \<open>Py_UNICODE_ISSPACE\<close> decides it.
\<close>

definition is_space :: "nat \<Rightarrow> bool" where
  "is_space c \<longleftrightarrow>
     (9 \<le> c \<and> c \<le> 13) \<or> (28 \<le> c \<and> c \<le> 32) \<or> c = 133 \<or> c = 160 \<or> c = 5760 \<or>
     (8192 \<le> c \<and> c \<le> 8202) \<or> c = 8232 \<or> c = 8233 \<or> c = 8239 \<or> c = 8287 \<or> c = 12288"

definition py_strip :: "pystr \<Rightarrow> pystr" where
  "py_strip s = rev (dropWhile is_space (rev (dropWhile is_space s)))"

text \<open>
  The case mappings \<open>str.lower()\<close> and \<open>str.title()\<close> follow the Unicode tables. The
  tables are written out for the code points up to U+00FF (ASCII and Latin-1, which
  covers every literal of the source); a code point above U+00FF is left as it is and
  counts as uncased. In Latin-1 the title case of U+00B5 is U+039C, of U+00FF is U+0178,
  and of U+00DF the two letters \<open>Ss\<close>.
\<close>

definition to_lower :: "nat \<Rightarrow> nat" where
  "to_lower c =
     (if (65 \<le> c \<and> c \<le> 90) \<or> (192 \<le> c \<and> c \<le> 214) \<or> (216 \<le> c \<and> c \<le> 222)
      then c + 32 else c)"

definition to_title :: "nat \<Rightarrow> pystr" where
  "to_title c =
     (if (97 \<le> c \<and> c \<le> 122) \<or> (224 \<le> c \<and> c \<le> 246) \<or> (248 \<le> c \<and> c \<le> 254)
      then [c - 32]
      else if c = 181 then [924]
      else if c = 255 then [376]
      else if c = 223 then [83, 115]
      else [c])"

definition is_cased :: "nat \<Rightarrow> bool" where
  "is_cased c \<longleftrightarrow>
     (65 \<le> c \<and> c \<le> 90) \<or> (97 \<le> c \<and> c \<le> 122) \<or> c = 170 \<or> c = 181 \<or> c = 186 \<or>
     (192 \<le> c \<and> c \<le> 214) \<or> (216 \<le> c \<and> c \<le> 246) \<or> (248 \<le> c \<and> c \<le> 255)"

definition py_lower :: "pystr \<Rightarrow> pystr" where
  "py_lower s = map to_lower s"

text \<open>
  \<open>str.title()\<close>: a character that follows a cased character is lowercased, any other
  character is titlecased.
\<close>

fun title_from :: "bool \<Rightarrow> pystr \<Rightarrow> pystr" where
  "title_from previous_is_cased [] = []"
| "title_from previous_is_cased (c # cs) =
     (if previous_is_cased then [to_lower c] else to_title c) @ title_from (is_cased c) cs"

definition py_title :: "pystr \<Rightarrow> pystr" where
  "py_title s = title_from False s"

text \<open>
  A \<open>Decimal\<close> is a sign, a coefficient and an exponent; \<open>digit_count\<close> is the length of
  its digit tuple. Comparisons are on the number it denotes. Only finite decimals are
  modelled.
\<close>

record Decimal =
  negative :: bool
  coefficient :: nat
  exponent :: int

definition dec_value :: "Decimal \<Rightarrow> rat" where
  "dec_value d =
     (if negative d then - 1 else 1) *
     (if 0 \<le> exponent d then of_nat (coefficient d) * 10 ^ nat (exponent d)
      else of_nat (coefficient d) / 10 ^ nat (- exponent d))"

fun digit_count :: "nat \<Rightarrow> nat" where
  "digit_count n = (if n < 10 then 1 else Suc (digit_count (n div 10)))"

declare digit_count.simps [simp del]

text \<open>
  A Python \<open>float\<close> is a finite number, an infinity or NaN. The product of two finite
  floats is the exact product rounded to a double; the rounding function is a parameter
  of the model (\<open>rnd\<close>). Signed zeros are not distinguished: no comparison of the
  source tells them apart.
\<close>

datatype pyfloat = Fin rat | PInf | NInf | NaN

fun fsign :: "pyfloat \<Rightarrow> int" where
  "fsign (Fin q) = (if q > 0 then 1 else if q < 0 then - 1 else 0)"
| "fsign PInf = 1"
| "fsign NInf = - 1"
| "fsign NaN = 0"

fun fmul :: "(rat \<Rightarrow> pyfloat) \<Rightarrow> pyfloat \<Rightarrow> pyfloat \<Rightarrow> pyfloat" where
  "fmul rnd (Fin a) (Fin b) = rnd (a * b)"
| "fmul rnd NaN y = NaN"
| "fmul rnd x NaN = NaN"
| "fmul rnd x y =
     (if fsign x * fsign y = 0 then NaN else if fsign x * fsign y > 0 then PInf else NInf)"

text \<open>\<open>x > n\<close> for a float \<open>x\<close> and an integer literal \<open>n\<close>; false for NaN.\<close>

fun fgt :: "pyfloat \<Rightarrow> rat \<Rightarrow> bool" where
  "fgt (Fin a) n = (a > n)"
| "fgt PInf n = True"
| "fgt NInf n = False"
| "fgt NaN n = False"

text \<open>Truth value of a float: every float but zero is true (NaN too).\<close>

fun ftruthy :: "pyfloat \<Rightarrow> bool" where
  "ftruthy (Fin a) = (a \<noteq> 0)"
| "ftruthy x = True"

text \<open>
  A \<open>dict\<close> with string keys keeps its keys in insertion order: an association list
  with distinct keys. \<open>dict_set\<close> is \<open>d[k] = v\<close>.
\<close>

type_synonym 'v pydict = "(pystr \<times> 'v) list"

fun dict_set :: "pystr \<Rightarrow> 'v \<Rightarrow> 'v pydict \<Rightarrow> 'v pydict" where
  "dict_set k v [] = [(k, v)]"
| "dict_set k v ((k', v') # d) = (if k' = k then (k, v) # d else (k', v') # dict_set k v d)"


section \<open>Schemas (app/schemas/product.py)\<close>

record ImageSchema =
  url :: pystr
  alt_text :: pystr

record PriceSchema =
  amount :: Decimal
  currency :: pystr

record DimensionsSchema =
  width :: pyfloat
  height :: pyfloat
  depth :: pyfloat

text \<open>
  \<open>ProductBase\<close>; \<open>ProductCreate\<close> adds validators and no field, \<open>ProductResponse\<close>
  adds three fields. A value of the record is a payload whose fields have the declared
  Python types; whether it satisfies the constraints is what validation decides.
\<close>

record ProductBase =
  name :: pystr
  sku :: pystr
  description :: "pystr option"
  price :: PriceSchema
  tags :: "pystr list"
  dimensions :: "DimensionsSchema option"
  images :: "ImageSchema list option"
  in_stock :: bool
  category_id :: "int option"

type_synonym ProductCreate = ProductBase

record ProductResponse = ProductBase +
  id' :: int
  created_at :: int
  updated_at :: "int option"

section \<open>The products table (app/models/product.py)\<close>

text \<open>
  A row of the table, and also the object before it is inserted: its \<open>id\<close> and
  \<open>created_at\<close> are \<open>None\<close> until the database has filled them in.
\<close>

record Product =
  db_id :: "int option"
  db_name :: pystr
  db_sku :: pystr
  db_description :: "pystr option"
  price_amount :: Decimal
  price_currency :: pystr
  db_tags :: "pystr list"
  db_dimensions :: "DimensionsSchema option"
  db_images :: "ImageSchema list"
  db_in_stock :: bool
  db_category_id :: "int option"
  db_created_at :: "int option"
  db_updated_at :: "int option"

text \<open>
  The database session, as far as the product endpoints use it: the rows of the table
  in insertion order and the next value of the primary-key sequence.
\<close>

record database =
  rows :: "Product list"
  next_id :: int

section \<open>Structural validation (app/schemas/product.py)\<close>

text \<open>
  The schemas are written with \<open>validator\<close> and \<open>root_validator\<close>, and validation
  follows them: the fields of a model are validated in the order of their declaration,
  first by the constraints of the field and then by the validators of the class; the
  errors of all fields are collected; the root validators run last, on the dictionary
  \<open>values\<close> of the fields that passed.

  A validation error is a location and a message. The messages of the library stand
  for: \<open>AnyStrMinLength n\<close> "ensure this value has at least n characters",
  \<open>AnyStrMaxLength n\<close> "ensure this value has at most n characters", \<open>StrRegex\<close>
  "string does not match regex", \<open>NumberNotGt n\<close> "ensure this value is greater than
  n", the three \<open>Decimal\<close> messages for \<open>max_digits\<close> and \<open>decimal_places\<close>, and
  \<open>NoneNotAllowed\<close> "none is not an allowed value". The others are the \<open>ValueError\<close>s
  the validators of the source raise:
  \<^item> \<open>InvalidCurrency\<close>: "Moneda ... no valida",
  \<^item> \<open>DimensionExceeds n\<close>: "n no puede exceder 500cm",
  \<^item> \<open>GenericName\<close>: "El nombre no puede ser una palabra generica",
  \<^item> \<open>EmptyTag\<close>: "Los tags no pueden estar vacios",
  \<^item> \<open>TagTooLong\<close>: "Cada tag debe tener maximo 30 caracteres",
  \<^item> \<open>DuplicateTags\<close>: "No puede haber tags duplicados",
  \<^item> \<open>TooManyTags\<close>: "Maximo 10 tags permitidos",
  \<^item> \<open>OutOfStockPrice\<close>: "Productos fuera de stock no pueden tener precio mayor a $1000",
  \<^item> \<open>LargeNeedsImage\<close>: "Productos grandes requieren al menos una imagen".
\<close>

datatype loc_item = Key string | Idx nat

datatype vmsg =
    AnyStrMinLength nat | AnyStrMaxLength nat | StrRegex | NumberNotGt int
  | DecimalMaxDigits | DecimalMaxPlaces | DecimalWholeDigits | NoneNotAllowed
  | InvalidCurrency | DimensionExceeds string | GenericName | EmptyTag | TagTooLong
  | DuplicateTags | TooManyTags | OutOfStockPrice | LargeNeedsImage

type_synonym verr = "loc_item list \<times> vmsg"

text \<open>
  The validators of one field run in a chain that stops at the first error; the errors
  of all fields of a model are collected. \<open>field_errors\<close> places the error of a field,
  \<open>nested_errors\<close> the errors of a sub-model or of the items of a list, and
  \<open>field_value\<close> is the entry of the field in the \<open>values\<close> dictionary (absent when
  the field failed).
\<close>

definition field_errors :: "loc_item \<Rightarrow> vmsg + 'a \<Rightarrow> verr list" where
  "field_errors l r = (case r of Inl m \<Rightarrow> [([l], m)] | Inr _ \<Rightarrow> [])"

definition nested_errors :: "loc_item \<Rightarrow> verr list + 'a \<Rightarrow> verr list" where
  "nested_errors l r = (case r of Inl es \<Rightarrow> map (\<lambda>(loc, m). (l # loc, m)) es | Inr _ \<Rightarrow> [])"

definition field_value :: "'e + 'a \<Rightarrow> 'a option" where
  "field_value r = (case r of Inl _ \<Rightarrow> None | Inr v \<Rightarrow> Some v)"

definition constr_length :: "nat \<Rightarrow> nat option \<Rightarrow> pystr \<Rightarrow> vmsg + pystr" where
  "constr_length min_length max_length v =
     (if length v < min_length then Inl (AnyStrMinLength min_length)
      else case max_length of
        None \<Rightarrow> Inr v
      | Some m \<Rightarrow> if length v > m then Inl (AnyStrMaxLength m) else Inr v)"

subsection \<open>ImageSchema\<close>

text \<open>
  \<open>url\<close> has the type \<open>HttpUrl\<close>: a payload of the model carries a well-formed URL,
  as it carries a string where the schema says \<open>str\<close>.
\<close>

definition validate_ImageSchema :: "ImageSchema \<Rightarrow> verr list + ImageSchema" where
  "validate_ImageSchema img =
     (case constr_length 1 (Some 100) (alt_text img) of
        Inl m \<Rightarrow> Inl [([Key ''alt_text''], m)]
      | Inr _ \<Rightarrow> Inr img)"

subsection \<open>PriceSchema\<close>

text \<open>The digit check of a constrained \<open>Decimal\<close>: \<open>max_digits=10, decimal_places=2\<close>.\<close>

definition decimal_digits :: "Decimal \<Rightarrow> int \<times> int" where
  "decimal_digits d =
     (let n = int (digit_count (coefficient d)); e = exponent d
      in if e \<ge> 0 then (n + e, 0)
         else if - e > n then (- e, - e)
         else (n, - e))"

definition constr_decimal :: "int \<Rightarrow> int \<Rightarrow> Decimal \<Rightarrow> vmsg + Decimal" where
  "constr_decimal max_digits decimal_places d =
     (let (digits, decimals) = decimal_digits d; whole_digits = digits - decimals
      in if digits > max_digits then Inl DecimalMaxDigits
         else if decimals > decimal_places then Inl DecimalMaxPlaces
         else if whole_digits > max_digits - decimal_places then Inl DecimalWholeDigits
         else Inr d)"

definition field_amount :: "Decimal \<Rightarrow> vmsg + Decimal" where
  "field_amount v =
     (if \<not> dec_value v > 0 then Inl (NumberNotGt 0) else constr_decimal 10 2 v)"

text \<open>
  A pattern \<open>^[...]{m,n}$\<close> is matched with \<open>re.match\<close>, where \<open>$\<close> also matches before
  a newline that ends the string.
\<close>

definition regex_class_range :: "(nat \<Rightarrow> bool) \<Rightarrow> nat \<Rightarrow> nat \<Rightarrow> pystr \<Rightarrow> bool" where
  "regex_class_range in_class m n s =
     (let body = (if s \<noteq> [] \<and> last s = 10 then butlast s else s)
      in m \<le> length body \<and> length body \<le> n \<and> list_all in_class body)"

definition upper_ascii :: "nat \<Rightarrow> bool" where
  "upper_ascii c \<longleftrightarrow> 65 \<le> c \<and> c \<le> 90"

definition valid_currencies :: "pystr list" where
  "valid_currencies =
     [ustr ''USD'', ustr ''EUR'', ustr ''COP'', ustr ''GBP'', ustr ''JPY'', ustr ''CAD'',
      ustr ''AUD'']"

definition validate_currency_code :: "pystr \<Rightarrow> vmsg + pystr" where
  "validate_currency_code v =
     (if v \<notin> set valid_currencies then Inl InvalidCurrency else Inr v)"

definition field_currency :: "pystr \<Rightarrow> vmsg + pystr" where
  "field_currency v =
     (if \<not> regex_class_range upper_ascii 3 3 v then Inl StrRegex
      else validate_currency_code v)"

definition validate_PriceSchema :: "PriceSchema \<Rightarrow> verr list + PriceSchema" where
  "validate_PriceSchema p =
     (let errs = field_errors (Key ''amount'') (field_amount (amount p)) @
                 field_errors (Key ''currency'') (field_currency (currency p))
      in if errs = [] then Inr p else Inl errs)"

subsection \<open>DimensionsSchema\<close>

definition field_dimension :: "pyfloat \<Rightarrow> vmsg + pyfloat" where
  "field_dimension v = (if \<not> fgt v 0 then Inl (NumberNotGt 0) else Inr v)"

text \<open>
  The root validator walks the items of \<open>values\<close>, which holds the fields that passed,
  in the order of their declaration.
\<close>

fun validate_dimensions :: "(string \<times> pyfloat) list \<Rightarrow> vmsg + unit" where
  "validate_dimensions [] = Inr ()"
| "validate_dimensions ((dim_name, dim_value) # items) =
     (if ftruthy dim_value \<and> fgt dim_value 500 then Inl (DimensionExceeds dim_name)
      else validate_dimensions items)"

definition dimension_item :: "string \<Rightarrow> pyfloat \<Rightarrow> (string \<times> pyfloat) list" where
  "dimension_item k v = (case field_dimension v of Inl _ \<Rightarrow> [] | Inr v' \<Rightarrow> [(k, v')])"

definition validate_DimensionsSchema :: "DimensionsSchema \<Rightarrow> verr list + DimensionsSchema" where
  "validate_DimensionsSchema d =
     (let vals = dimension_item ''width'' (width d) @ dimension_item ''height'' (height d) @
                   dimension_item ''depth'' (depth d);
          errs = field_errors (Key ''width'') (field_dimension (width d)) @
                 field_errors (Key ''height'') (field_dimension (height d)) @
                 field_errors (Key ''depth'') (field_dimension (depth d)) @
                 field_errors (Key ''__root__'') (validate_dimensions vals)
      in if errs = [] then Inr d else Inl errs)"

subsection \<open>ProductBase\<close>

definition field_name :: "pystr \<Rightarrow> vmsg + pystr" where
  "field_name v = constr_length 3 (Some 100) v"

definition sku_char :: "nat \<Rightarrow> bool" where
  "sku_char c \<longleftrightarrow> (65 \<le> c \<and> c \<le> 90) \<or> (48 \<le> c \<and> c \<le> 57) \<or> c = 45"

definition field_sku :: "pystr \<Rightarrow> vmsg + pystr" where
  "field_sku v = (if \<not> regex_class_range sku_char 5 20 v then Inl StrRegex else Inr v)"

definition field_description :: "pystr option \<Rightarrow> vmsg + pystr option" where
  "field_description v =
     (case v of
        None \<Rightarrow> Inr None
      | Some s \<Rightarrow> (case constr_length 0 (Some 500) s of Inl m \<Rightarrow> Inl m | Inr s' \<Rightarrow> Inr (Some s')))"

definition field_tags :: "pystr list \<Rightarrow> verr list + pystr list" where
  "field_tags v = Inr v"

definition field_dimensions :: "DimensionsSchema option \<Rightarrow> verr list + DimensionsSchema option" where
  "field_dimensions v =
     (case v of
        None \<Rightarrow> Inr None
      | Some d \<Rightarrow> (case validate_DimensionsSchema d of Inl es \<Rightarrow> Inl es | Inr d' \<Rightarrow> Inr (Some d')))"

definition item_errors :: "(verr list + 'a) list \<Rightarrow> verr list" where
  "item_errors rs = concat (map (\<lambda>(i, r). nested_errors (Idx i) r) (enumerate 0 rs))"

definition item_values :: "('e + 'a) list \<Rightarrow> 'a list" where
  "item_values rs = concat (map (\<lambda>r. case r of Inl _ \<Rightarrow> [] | Inr v \<Rightarrow> [v]) rs)"

definition field_images :: "ImageSchema list option \<Rightarrow> verr list + ImageSchema list option" where
  "field_images v =
     (case v of
        None \<Rightarrow> Inr None
      | Some imgs \<Rightarrow>
          (let rs = map validate_ImageSchema imgs
           in if item_errors rs = [] then Inr (Some (item_values rs)) else Inl (item_errors rs)))"

definition field_category_id :: "int option \<Rightarrow> vmsg + int option" where
  "field_category_id v =
     (case v of
        None \<Rightarrow> Inr None
      | Some n \<Rightarrow> if \<not> n > 0 then Inl (NumberNotGt 0) else Inr (Some n))"

text \<open>
  The \<open>values\<close> dictionary a root validator receives: the fields that passed their
  validators. A field that failed has no entry.
\<close>

record values_dict =
  v_name :: "pystr option"
  v_sku :: "pystr option"
  v_description :: "pystr option option"
  v_price :: "PriceSchema option"
  v_tags :: "pystr list option"
  v_dimensions :: "DimensionsSchema option option"
  v_images :: "ImageSchema list option option"
  v_in_stock :: "bool option"
  v_category_id :: "int option option"

text \<open>
  The fields of the model are validated in the order of their declaration. The
  validators of \<open>name\<close> and of \<open>tags\<close> are parameters: \<open>ProductCreate\<close> extends those of
  \<open>ProductBase\<close>.
\<close>

definition validate_fields ::
  "(pystr \<Rightarrow> vmsg + pystr) \<Rightarrow> (pystr list \<Rightarrow> verr list + pystr list) \<Rightarrow>
   'a ProductBase_scheme \<Rightarrow> values_dict \<times> verr list" where
  "validate_fields name_validators tags_validators raw =
     (let r_name = name_validators (name raw);
          r_sku = field_sku (sku raw);
          r_description = field_description (description raw);
          r_price = validate_PriceSchema (price raw);
          r_tags = tags_validators (tags raw);
          r_dimensions = field_dimensions (dimensions raw);
          r_images = field_images (images raw);
          r_category_id = field_category_id (category_id raw)
      in (\<lparr>v_name = field_value r_name, v_sku = field_value r_sku,
           v_description = field_value r_description, v_price = field_value r_price,
           v_tags = field_value r_tags, v_dimensions = field_value r_dimensions,
           v_images = field_value r_images, v_in_stock = Some (in_stock raw),
           v_category_id = field_value r_category_id\<rparr>,
          field_errors (Key ''name'') r_name @ field_errors (Key ''sku'') r_sku @
          field_errors (Key ''description'') r_description @
          nested_errors (Key ''price'') r_price @ nested_errors (Key ''tags'') r_tags @
          nested_errors (Key ''dimensions'') r_dimensions @
          nested_errors (Key ''images'') r_images @
          field_errors (Key ''category_id'') r_category_id))"

text \<open>The model object built from a complete \<open>values\<close> dictionary.\<close>

definition from_values :: "values_dict \<Rightarrow> 'a ProductBase_scheme \<Rightarrow> 'a ProductBase_scheme option" where
  "from_values vs raw =
     (case v_name vs of None \<Rightarrow> None | Some n \<Rightarrow>
      case v_sku vs of None \<Rightarrow> None | Some s \<Rightarrow>
      case v_description vs of None \<Rightarrow> None | Some d \<Rightarrow>
      case v_price vs of None \<Rightarrow> None | Some p \<Rightarrow>
      case v_tags vs of None \<Rightarrow> None | Some t \<Rightarrow>
      case v_dimensions vs of None \<Rightarrow> None | Some dm \<Rightarrow>
      case v_images vs of None \<Rightarrow> None | Some im \<Rightarrow>
      case v_in_stock vs of None \<Rightarrow> None | Some st \<Rightarrow>
      case v_category_id vs of None \<Rightarrow> None | Some c \<Rightarrow>
        Some (raw\<lparr>name := n, sku := s, description := d, price := p, tags := t,
                  dimensions := dm, images := im, in_stock := st, category_id := c\<rparr>))"

definition validate_ProductBase :: "'a ProductBase_scheme \<Rightarrow> verr list + 'a ProductBase_scheme" where
  "validate_ProductBase raw =
     (let (vs, errs) = validate_fields field_name field_tags raw
      in if errs = [] then (case from_values vs raw of Some m \<Rightarrow> Inr m | None \<Rightarrow> Inl errs)
         else Inl errs)"

subsection \<open>ProductCreate\<close>

definition forbidden_words :: "pystr list" where
  "forbidden_words =
     [ustr ''producto'', ustr ''art'' @ [237] @ ustr ''culo'', ustr ''item'', ustr ''thing'',
      ustr ''objeto'']"

definition validate_name :: "pystr \<Rightarrow> vmsg + pystr" where
  "validate_name v =
     (if py_strip (py_lower v) \<in> set forbidden_words then Inl GenericName
      else Inr (py_title (py_strip v)))"

definition validate_tags :: "pystr \<Rightarrow> vmsg + pystr" where
  "validate_tags v =
     (if v = [] \<or> length (py_strip v) = 0 then Inl EmptyTag
      else if length v > 30 then Inl TagTooLong
      else Inr (py_lower (py_strip v)))"

definition validate_tags_uniqueness :: "pystr list \<Rightarrow> vmsg + pystr list" where
  "validate_tags_uniqueness v =
     (if length v \<noteq> card (set v) then Inl DuplicateTags
      else if length v > 10 then Inl TooManyTags
      else Inr v)"

text \<open>\<open>width * height * depth\<close>, multiplied from the left.\<close>

definition dimensions_volume :: "(rat \<Rightarrow> pyfloat) \<Rightarrow> DimensionsSchema \<Rightarrow> pyfloat" where
  "dimensions_volume rnd d = fmul rnd (fmul rnd (width d) (height d)) (depth d)"

text \<open>
  The root validator. \<open>values.get\<close> gives \<open>None\<close> for a field without entry as for
  an entry that is \<open>None\<close>. \<open>not in_stock\<close> holds for \<open>False\<close> and for \<open>None\<close>; a
  price, and dimensions, that are there are true; \<open>not values.get('images')\<close> holds
  for \<open>None\<close> and for the empty list.
\<close>

definition validate_business_rules :: "(rat \<Rightarrow> pyfloat) \<Rightarrow> values_dict \<Rightarrow> vmsg + values_dict" where
  "validate_business_rules rnd vs =
     (let in_stock = v_in_stock vs;
          price = v_price vs;
          dimensions = (case v_dimensions vs of Some (Some d) \<Rightarrow> Some d | _ \<Rightarrow> None);
          images = (case v_images vs of Some (Some imgs) \<Rightarrow> imgs | _ \<Rightarrow> [])
      in if in_stock \<noteq> Some True \<and>
            (case price of None \<Rightarrow> False | Some p \<Rightarrow> dec_value (amount p) > 1000)
         then Inl OutOfStockPrice
         else case dimensions of
           None \<Rightarrow> Inr vs
         | Some d \<Rightarrow>
             (let volume = dimensions_volume rnd d
              in if fgt volume 100000 \<and> images = [] then Inl LargeNeedsImage else Inr vs))"

text \<open>
  The validators of the two fields that \<open>ProductCreate\<close> validates further. A validator
  of the class runs after the constraints of the field; \<open>validate_tags\<close> runs on each
  item, and \<open>validate_tags_uniqueness\<close> on the list of the validated items, when every
  item passed.
\<close>

definition field_name_create :: "pystr \<Rightarrow> vmsg + pystr" where
  "field_name_create v = (case field_name v of Inl m \<Rightarrow> Inl m | Inr v' \<Rightarrow> validate_name v')"

definition field_tags_create :: "pystr list \<Rightarrow> verr list + pystr list" where
  "field_tags_create v =
     (let rs = map (\<lambda>t. case validate_tags t of Inl m \<Rightarrow> Inl [([], m)] | Inr t' \<Rightarrow> Inr t') v
      in if item_errors rs \<noteq> [] then Inl (item_errors rs)
         else case validate_tags_uniqueness (item_values rs) of
           Inl m \<Rightarrow> Inl [([], m)]
         | Inr v' \<Rightarrow> Inr v')"

text \<open>
  The root validator runs after the fields, also when a field failed; the model is
  built when there is no error at all.
\<close>

definition validate_ProductCreate ::
  "(rat \<Rightarrow> pyfloat) \<Rightarrow> ProductCreate \<Rightarrow> verr list + ProductCreate" where
  "validate_ProductCreate rnd raw =
     (let (vs, field_errs) = validate_fields field_name_create field_tags_create raw;
          errs = field_errs @ field_errors (Key ''__root__'') (validate_business_rules rnd vs)
      in if errs = [] then (case from_values vs raw of Some m \<Rightarrow> Inr m | None \<Rightarrow> Inl errs)
         else Inl errs)"

section \<open>Business validation (app/services/validation_service.py)\<close>

text \<open>\<open>query(Product).filter_by(...).first()\<close>: the first row that matches, or \<open>None\<close>.\<close>

definition query_first :: "(Product \<Rightarrow> bool) \<Rightarrow> database \<Rightarrow> Product option" where
  "query_first p db = find p (rows db)"

definition validate_business_constraints :: "database \<Rightarrow> ProductCreate \<Rightarrow> pystr pydict" where
  "validate_business_constraints db product_data =
     (let errors = [];
          existing_sku = query_first (\<lambda>r. db_sku r = sku product_data) db;
          errors = (if existing_sku \<noteq> None
                    then dict_set (ustr ''sku'') (ustr ''SKU ya existe en el sistema'') errors
                    else errors);
          existing_name = query_first (\<lambda>r. db_name r = name product_data) db;
          errors = (if existing_name \<noteq> None
                    then dict_set (ustr ''name'') (ustr ''Ya existe un producto con este nombre'') errors
                    else errors)
      in errors)"

section \<open>Exceptions (app/core/exceptions.py)\<close>

text \<open>
  The exceptions a request can end in. The detail of an \<open>HTTPException\<close> is a message,
  the dictionary \<open>{"message": ..., "errors": business_errors}\<close> of the creation
  endpoint (\<open>BusinessErrors\<close>), or the message of the rate limiter, which is built from
  \<open>max_requests\<close> and \<open>window_minutes\<close> (\<open>RateLimitExceeded\<close>).
  \<open>RequestValidationError\<close> is what the framework raises when the body fails the
  validation of its model, \<open>ValidationError\<close> what building a model object raises.
\<close>

datatype detail = Message pystr | BusinessErrors "pystr pydict" | RateLimitExceeded int int

datatype exn =
    HTTPException nat detail
  | RequestValidationError "verr list"
  | ValidationError "verr list"
  | IntegrityError
  | ValueError
  | ResponseError



section \<open>Product service (app/services/product_service.py)\<close>

text \<open>
  \<open>add\<close>, \<open>commit\<close> and \<open>refresh\<close>: the insert fails on the unique index of \<open>sku\<close>;
  otherwise the row gets the next primary key and the time of the server as
  \<open>created_at\<close>, and the object is read back. The database compares strings as Python
  does, and the lengths of the columns are not enforced: both are up to the database
  engine, which the settings choose.
\<close>

definition add_commit_refresh :: "int \<Rightarrow> Product \<Rightarrow> database \<Rightarrow> exn + Product \<times> database" where
  "add_commit_refresh now db_product db =
     (if db_sku db_product \<in> set (map db_sku (rows db)) then Inl IntegrityError
      else (let row = db_product\<lparr>db_id := Some (next_id db), db_created_at := Some now\<rparr>
            in Inr (row, db\<lparr>rows := rows db @ [row], next_id := next_id db + 1\<rparr>)))"

text \<open>
  Building a \<open>ProductResponse\<close> validates the fields of \<open>ProductBase\<close> (not the
  validators of \<open>ProductCreate\<close>) and requires \<open>id\<close> and \<open>created_at\<close>.
\<close>

definition required :: "string \<Rightarrow> 'a option \<Rightarrow> verr list" where
  "required k v = (case v of None \<Rightarrow> [([Key k], NoneNotAllowed)] | Some _ \<Rightarrow> [])"

definition to_response :: "Product \<Rightarrow> exn + ProductResponse" where
  "to_response db_product =
     (let base = \<lparr>name = db_name db_product,
                  sku = db_sku db_product,
                  description = db_description db_product,
                  price = \<lparr>amount = price_amount db_product,
                           currency = price_currency db_product\<rparr>,
                  tags = db_tags db_product,
                  dimensions = db_dimensions db_product,
                  images = Some (db_images db_product),
                  in_stock = db_in_stock db_product,
                  category_id = db_category_id db_product\<rparr>;
          (vs, field_errs) = validate_fields field_name field_tags base;
          errs = field_errs @ required ''id'' (db_id db_product) @
                 required ''created_at'' (db_created_at db_product)
      in case (errs, from_values vs base, db_id db_product, db_created_at db_product) of
           ([], Some b, Some i, Some c) \<Rightarrow>
             Inr \<lparr>name = name b, sku = sku b, description = description b, price = price b,
                  tags = tags b, dimensions = dimensions b, images = images b,
                  in_stock = in_stock b, category_id = category_id b,
                  id' = i, created_at = c, updated_at = db_updated_at db_product\<rparr>
         | _ \<Rightarrow> Inl (ValidationError errs))"

definition ProductService_create_product ::
  "int \<Rightarrow> ProductCreate \<Rightarrow> database \<Rightarrow> (exn + ProductResponse) \<times> database" where
  "ProductService_create_product now product_data db =
     (let db_product =
            \<lparr>db_id = None,
             db_name = name product_data,
             db_sku = sku product_data,
             db_description = description product_data,
             price_amount = amount (price product_data),
             price_currency = currency (price product_data),
             db_tags = tags product_data,
             db_dimensions = dimensions product_data,
             db_images = (case images product_data of None \<Rightarrow> [] | Some imgs \<Rightarrow> imgs),
             db_in_stock = in_stock product_data,
             db_category_id = category_id product_data,
             db_created_at = None,
             db_updated_at = None\<rparr>
      in case add_commit_refresh now db_product db of
           Inl e \<Rightarrow> (Inl e, db)
         | Inr (row, db') \<Rightarrow> (to_response row, db'))"

section \<open>Endpoints (app/api/v1/endpoints/products.py)\<close>

text \<open>
  An endpoint returns its result or raises, and leaves the database as it is then. The
  creation endpoint passes an \<open>HTTPException\<close> on and turns any other exception into
  a 500; the service raises no \<open>HTTPException\<close>.
\<close>

definition internal_server_error :: exn where
  "internal_server_error = HTTPException 500 (Message (ustr ''Error interno del servidor''))"

definition create_product ::
  "int \<Rightarrow> ProductCreate \<Rightarrow> database \<Rightarrow> (exn + ProductResponse) \<times> database" where
  "create_product now product_data db =
     (let business_errors = validate_business_constraints db product_data
      in if business_errors \<noteq> [] then (Inl (HTTPException 422 (BusinessErrors business_errors)), db)
         else case ProductService_create_product now product_data db of
           (Inr product, db') \<Rightarrow> (Inr product, db')
         | (Inl (HTTPException s d), db') \<Rightarrow> (Inl (HTTPException s d), db')
         | (Inl e, db') \<Rightarrow> (Inl internal_server_error, db'))"

record ValidationResponse =
  valid :: bool
  errors :: "pystr pydict option"
  message :: pystr

definition validate_product ::
  "ProductCreate \<Rightarrow> database \<Rightarrow> (exn + ValidationResponse) \<times> database" where
  "validate_product product_data db =
     (let business_errors = validate_business_constraints db product_data
      in (Inr \<lparr>valid = (length business_errors = 0),
               errors = (if business_errors \<noteq> [] then Some business_errors else None),
               message = (if \<not> business_errors \<noteq> [] then ustr ''Datos v'' @ [225] @ ustr ''lidos''
                          else ustr ''Se encontraron errores'')\<rparr>,
          db))"

text \<open>
  The two routes as a client calls them: the body is validated against \<open>ProductCreate\<close>
  before the endpoint runs. A created product is answered with 201, a validation
  report with 200.
\<close>

definition post_products ::
  "(rat \<Rightarrow> pyfloat) \<Rightarrow> int \<Rightarrow> ProductCreate \<Rightarrow> database \<Rightarrow> (exn + ProductResponse) \<times> database" where
  "post_products rnd now body db =
     (case validate_ProductCreate rnd body of
        Inl errs \<Rightarrow> (Inl (RequestValidationError errs), db)
      | Inr product_data \<Rightarrow> create_product now product_data db)"

definition post_products_validate ::
  "(rat \<Rightarrow> pyfloat) \<Rightarrow> ProductCreate \<Rightarrow> database \<Rightarrow> (exn + ValidationResponse) \<times> database" where
  "post_products_validate rnd body db =
     (case validate_ProductCreate rnd body of
        Inl errs \<Rightarrow> (Inl (RequestValidationError errs), db)
      | Inr product_data \<Rightarrow> validate_product product_data db)"

text \<open>A sequence of create requests, each with the time at which it is served.\<close>

fun create_all :: "(int \<times> ProductCreate) list \<Rightarrow> database \<Rightarrow> database" where
  "create_all [] db = db"
| "create_all ((now, product_data) # reqs) db =
     create_all reqs (snd (create_product now product_data db))"

section \<open>Dependencies (app/api/deps.py)\<close>

subsection \<open>Authentication\<close>













subsection \<open>Rate limiting\<close>








section \<open>Example data\<close>






text \<open>
  A payload as a client sends it and the model that validation makes of it, a price in
  US dollars given in cents, a box of whole centimetres, an image and the empty table.
  The examples multiply floats with \<open>Fin\<close> as the rounding, that is, exactly: the
  volumes of the example boxes are whole numbers far below \<open>2 ^ 53\<close>, which a double
  holds exactly.
\<close>

definition usd :: "nat \<Rightarrow> PriceSchema" where
  "usd cents = \<lparr>amount = \<lparr>negative = False, coefficient = cents, exponent = - 2\<rparr>, currency = ustr ''USD''\<rparr>"

definition mouse_body :: ProductCreate where
  "mouse_body =
     \<lparr>name = ustr ''  wireless mouse '', sku = ustr ''ABC-12345'', description = None,
      price = usd 1999, tags = [ustr '' Red '', ustr ''OFFICE''], dimensions = None,
      images = None, in_stock = True, category_id = None\<rparr>"

definition mouse :: ProductCreate where
  "mouse = mouse_body\<lparr>name := ustr ''Wireless Mouse'', tags := [ustr ''red'', ustr ''office'']\<rparr>"



definition empty_db :: database where
  "empty_db = \<lparr>rows = [], next_id = 1\<rparr>"

text \<open>
  Values as a root validator may receive them, with no entry for the fields that do not
  matter here: out of stock at a price, and in stock with dimensions and images.
\<close>

definition out_of_stock_values :: "nat \<Rightarrow> values_dict" where
  "out_of_stock_values cents =
     \<lparr>v_name = None, v_sku = None, v_description = None, v_price = Some (usd cents),
      v_tags = None, v_dimensions = None, v_images = None, v_in_stock = Some False,
      v_category_id = None\<rparr>"



text \<open>
  The row and the table after the example product has been created at time 7, and a
  second product with another name and SKU.
\<close>

definition mouse_row :: Product where
  "mouse_row =
     \<lparr>db_id = Some 1, db_name = ustr ''Wireless Mouse'', db_sku = ustr ''ABC-12345'',
      db_description = None, price_amount = amount (usd 1999), price_currency = ustr ''USD'',
      db_tags = [ustr ''red'', ustr ''office''], db_dimensions = None, db_images = [],
      db_in_stock = True, db_category_id = None, db_created_at = Some 7,
      db_updated_at = None\<rparr>"

definition mouse_db :: database where
  "mouse_db = \<lparr>rows = [mouse_row], next_id = 2\<rparr>"

definition keyboard :: ProductCreate where
  "keyboard = mouse\<lparr>name := ustr ''Keyboard'', sku := ustr ''XYZ-00001''\<rparr>"

section \<open>Facts about structural validation\<close>

subsection \<open>Errors of fields and of nested models\<close>

lemma field_errors_Nil [simp]: "field_errors l r = [] \<longleftrightarrow> (\<exists>v. r = Inr v)"
  by (cases r) (simp_all add: field_errors_def)

lemma nested_errors_Nil: "nested_errors l r = [] \<longleftrightarrow> (\<exists>v. r = Inr v) \<or> r = Inl []"
  by (cases r) (simp_all add: nested_errors_def)

lemma field_value_Inr [simp]: "field_value (Inr v) = Some v"
  by (simp add: field_value_def)

lemma field_value_Inl [simp]: "field_value (Inl e) = None"
  by (simp add: field_value_def)

lemma item_errors_enumerate_Nil:
  "concat (map (\<lambda>(i, r). nested_errors (Idx i) r) (enumerate n rs)) = [] \<longleftrightarrow>
     (\<forall>r \<in> set rs. (\<exists>v. r = Inr v) \<or> r = Inl [])"
  by (induction rs arbitrary: n) (auto simp: nested_errors_Nil)

lemma item_errors_Nil:
  "item_errors rs = [] \<longleftrightarrow> (\<forall>r \<in> set rs. (\<exists>v. r = Inr v) \<or> r = Inl [])"
  unfolding item_errors_def by (rule item_errors_enumerate_Nil)

lemma item_values_map:
  "\<forall>x \<in> set xs. f x = Inr (g x) \<Longrightarrow> item_values (map f xs) = map g xs"
  by (induction xs) (simp_all add: item_values_def)

subsection \<open>What the validators of a field return\<close>

lemma validate_ImageSchema_cases:
  "validate_ImageSchema img = Inr img \<or> (\<exists>m. validate_ImageSchema img = Inl [([Key ''alt_text''], m)])"
  by (simp add: validate_ImageSchema_def split: sum.splits)

lemma field_images_Inr: "field_images v = Inr v' \<Longrightarrow> v' = v"
proof (cases v)
  case None
  assume "field_images v = Inr v'"
  with None show ?thesis by (simp add: field_images_def)
next
  case (Some imgs)
  assume a: "field_images v = Inr v'"
  with Some have e: "item_errors (map validate_ImageSchema imgs) = []"
    and v': "v' = Some (item_values (map validate_ImageSchema imgs))"
    by (auto simp: field_images_def Let_def split: if_splits)
  have "\<forall>img \<in> set imgs. validate_ImageSchema img = Inr img"
  proof
    fix img assume "img \<in> set imgs"
    with e have "(\<exists>v. validate_ImageSchema img = Inr v) \<or> validate_ImageSchema img = Inl []"
      by (auto simp: item_errors_Nil)
    with validate_ImageSchema_cases [of img] show "validate_ImageSchema img = Inr img"
      by auto
  qed
  then have "item_values (map validate_ImageSchema imgs) = map (\<lambda>img. img) imgs"
    by (rule item_values_map)
  with v' Some show ?thesis by simp
qed

lemma field_images_not_Inl_Nil: "field_images v \<noteq> Inl []"
  by (simp add: field_images_def Let_def split: option.splits)

lemma validate_PriceSchema_Inr: "validate_PriceSchema p = Inr p' \<Longrightarrow> p' = p"
  by (simp add: validate_PriceSchema_def Let_def split: if_splits)

lemma validate_PriceSchema_not_Inl_Nil: "validate_PriceSchema p \<noteq> Inl []"
  by (simp add: validate_PriceSchema_def Let_def)

lemma validate_DimensionsSchema_Inr: "validate_DimensionsSchema d = Inr d' \<Longrightarrow> d' = d"
  by (simp add: validate_DimensionsSchema_def Let_def split: if_splits)

lemma validate_DimensionsSchema_not_Inl_Nil: "validate_DimensionsSchema d \<noteq> Inl []"
  by (simp add: validate_DimensionsSchema_def Let_def)

lemma field_dimensions_Inr: "field_dimensions v = Inr v' \<Longrightarrow> v' = v"
  by (auto simp: field_dimensions_def split: option.splits sum.splits
      dest: validate_DimensionsSchema_Inr)

lemma field_dimensions_not_Inl_Nil: "field_dimensions v \<noteq> Inl []"
  using validate_DimensionsSchema_not_Inl_Nil
  by (auto simp: field_dimensions_def split: option.splits sum.splits)

lemma field_sku_Inr: "field_sku v = Inr v' \<Longrightarrow> v' = v"
  by (simp add: field_sku_def split: if_splits)

lemma constr_length_Inr: "constr_length lo hi v = Inr v' \<Longrightarrow> v' = v"
  by (simp add: constr_length_def split: if_splits option.splits)

lemma field_description_Inr: "field_description v = Inr v' \<Longrightarrow> v' = v"
  by (auto simp: field_description_def split: option.splits sum.splits dest: constr_length_Inr)

lemma field_category_id_Inr: "field_category_id v = Inr v' \<Longrightarrow> v' = v"
  by (auto simp: field_category_id_def split: option.splits if_splits)

lemma field_tags_create_not_Inl_Nil: "field_tags_create v \<noteq> Inl []"
  by (simp add: field_tags_create_def Let_def split: sum.splits)

lemma field_name_Inr_iff: "field_name v = Inr v' \<longleftrightarrow> v' = v \<and> 3 \<le> length v \<and> length v \<le> 100"
  by (auto simp: field_name_def constr_length_def)


lemma ex_Inr_simps:
  "(\<exists>v. field_sku x1 = Inr v) \<longleftrightarrow> field_sku x1 = Inr x1"
  "(\<exists>v. field_description x2 = Inr v) \<longleftrightarrow> field_description x2 = Inr x2"
  "(\<exists>v. field_category_id x3 = Inr v) \<longleftrightarrow> field_category_id x3 = Inr x3"
  "(\<exists>v. validate_PriceSchema x4 = Inr v) \<or> validate_PriceSchema x4 = Inl [] \<longleftrightarrow>
     validate_PriceSchema x4 = Inr x4"
  "(\<exists>v. field_dimensions x5 = Inr v) \<or> field_dimensions x5 = Inl [] \<longleftrightarrow>
     field_dimensions x5 = Inr x5"
  "(\<exists>v. field_images x6 = Inr v) \<or> field_images x6 = Inl [] \<longleftrightarrow> field_images x6 = Inr x6"
  using field_sku_Inr field_description_Inr field_category_id_Inr validate_PriceSchema_Inr
    validate_PriceSchema_not_Inl_Nil field_dimensions_Inr field_dimensions_not_Inl_Nil
    field_images_Inr field_images_not_Inl_Nil
  by blast+

subsection \<open>The fields of a model\<close>

lemma fst_validate_fields:
  "fst (validate_fields nv tv raw) =
     \<lparr>v_name = field_value (nv (name raw)), v_sku = field_value (field_sku (sku raw)),
      v_description = field_value (field_description (description raw)),
      v_price = field_value (validate_PriceSchema (price raw)),
      v_tags = field_value (tv (tags raw)),
      v_dimensions = field_value (field_dimensions (dimensions raw)),
      v_images = field_value (field_images (images raw)), v_in_stock = Some (in_stock raw),
      v_category_id = field_value (field_category_id (category_id raw))\<rparr>"
  by (simp add: validate_fields_def Let_def)

lemma snd_validate_fields_Nil:
  "snd (validate_fields nv tv raw) = [] \<longleftrightarrow>
     (\<exists>n. nv (name raw) = Inr n) \<and> field_sku (sku raw) = Inr (sku raw) \<and>
     field_description (description raw) = Inr (description raw) \<and>
     validate_PriceSchema (price raw) = Inr (price raw) \<and>
     ((\<exists>t. tv (tags raw) = Inr t) \<or> tv (tags raw) = Inl []) \<and>
     field_dimensions (dimensions raw) = Inr (dimensions raw) \<and>
     field_images (images raw) = Inr (images raw) \<and>
     field_category_id (category_id raw) = Inr (category_id raw)"
  by (simp add: validate_fields_def Let_def nested_errors_Nil ex_Inr_simps)

lemma from_values_complete:
  assumes "nv (name raw) = Inr n" and "tv (tags raw) = Inr t"
    and "snd (validate_fields nv tv raw) = []"
  shows "from_values (fst (validate_fields nv tv raw)) raw = Some (raw\<lparr>name := n, tags := t\<rparr>)"
  using assms(3) unfolding snd_validate_fields_Nil
  by (simp add: fst_validate_fields from_values_def assms(1,2))

lemma validate_ProductCreate_unfold:
  "validate_ProductCreate rnd raw =
     (let vs = fst (validate_fields field_name_create field_tags_create raw);
          errs = snd (validate_fields field_name_create field_tags_create raw) @
                 field_errors (Key ''__root__'') (validate_business_rules rnd vs)
      in if errs = [] then (case from_values vs raw of Some m \<Rightarrow> Inr m | None \<Rightarrow> Inl errs)
         else Inl errs)"
  by (simp add: validate_ProductCreate_def split_beta Let_def)

lemma validate_ProductCreate_Inr_iff:
  "validate_ProductCreate rnd raw = Inr pd \<longleftrightarrow>
     (\<exists>n t. field_name_create (name raw) = Inr n \<and> field_tags_create (tags raw) = Inr t \<and>
        pd = raw\<lparr>name := n, tags := t\<rparr>) \<and>
     snd (validate_fields field_name_create field_tags_create raw) = [] \<and>
     (\<exists>vs. validate_business_rules rnd
        (fst (validate_fields field_name_create field_tags_create raw)) = Inr vs)"
  (is "?l \<longleftrightarrow> ?r")
proof
  assume l: ?l
  then have e: "snd (validate_fields field_name_create field_tags_create raw) = []"
    and root: "\<exists>vs. validate_business_rules rnd
        (fst (validate_fields field_name_create field_tags_create raw)) = Inr vs"
    by (auto simp: validate_ProductCreate_unfold Let_def split: if_splits)
  from e obtain n t where nt: "field_name_create (name raw) = Inr n"
      "field_tags_create (tags raw) = Inr t"
    using field_tags_create_not_Inl_Nil by (auto simp: snd_validate_fields_Nil)
  from from_values_complete [OF nt e] l e root have "pd = raw\<lparr>name := n, tags := t\<rparr>"
    by (auto simp: validate_ProductCreate_unfold Let_def)
  with nt e root show ?r by blast
next
  assume r: ?r
  then obtain n t where nt: "field_name_create (name raw) = Inr n"
      "field_tags_create (tags raw) = Inr t" and pd: "pd = raw\<lparr>name := n, tags := t\<rparr>"
    and e: "snd (validate_fields field_name_create field_tags_create raw) = []"
    by blast
  from r from_values_complete [OF nt e] pd e show ?l
    by (auto simp: validate_ProductCreate_unfold Let_def)
qed

subsection \<open>The root validator\<close>

lemma validate_business_rules_Inr: "validate_business_rules rnd vs = Inr vs' \<Longrightarrow> vs' = vs"
  by (simp add: validate_business_rules_def Let_def split: if_splits option.splits)

lemma validate_business_rules_stock:
  "validate_business_rules rnd vs = Inl OutOfStockPrice \<longleftrightarrow>
     v_in_stock vs \<noteq> Some True \<and> (\<exists>p. v_price vs = Some p \<and> dec_value (amount p) > 1000)"
  by (auto simp: validate_business_rules_def Let_def split: option.splits)


lemma validate_business_rules_Inl:
  "validate_business_rules rnd vs = Inl m \<Longrightarrow> m = OutOfStockPrice \<or> m = LargeNeedsImage"
  by (auto simp: validate_business_rules_def Let_def split: option.splits if_splits)

lemma field_errors_root:
  "(loc, m) \<in> set (field_errors (Key ''__root__'') r) \<longleftrightarrow> loc = [Key ''__root__''] \<and> r = Inl m"
  by (cases r) (auto simp: field_errors_def)

lemma nested_errors_loc:
  "(loc, m) \<in> set (nested_errors l r) \<Longrightarrow> \<exists>loc'. loc = l # loc'"
  by (cases r) (auto simp: nested_errors_def)

lemma field_errors_loc:
  "(loc, m) \<in> set (field_errors l r) \<Longrightarrow> loc = [l]"
  by (cases r) (auto simp: field_errors_def)

lemma validate_fields_no_root:
  "([Key ''__root__''], m) \<notin> set (snd (validate_fields nv tv raw))"
  by (auto simp: validate_fields_def Let_def dest!: nested_errors_loc field_errors_loc)

lemma validate_ProductCreate_Inl:
  "validate_ProductCreate rnd raw = Inl errs \<Longrightarrow>
     errs = snd (validate_fields field_name_create field_tags_create raw) @
            field_errors (Key ''__root__'')
              (validate_business_rules rnd (fst (validate_fields field_name_create field_tags_create raw)))"
  by (simp add: validate_ProductCreate_unfold Let_def split: if_splits option.splits)

lemma root_error_iff:
  assumes "validate_ProductCreate rnd raw = Inl errs"
  shows "([Key ''__root__''], m) \<in> set errs \<longleftrightarrow>
     validate_business_rules rnd (fst (validate_fields field_name_create field_tags_create raw)) = Inl m"
  using validate_ProductCreate_Inl [OF assms] validate_fields_no_root
  by (auto simp: field_errors_root)

lemma rejected_or_accepted:
  "(\<exists>errs. validate_ProductCreate rnd raw = Inl errs) \<or> (\<exists>pd. validate_ProductCreate rnd raw = Inr pd)"
  by (cases "validate_ProductCreate rnd raw") auto

lemma post_products_rejected:
  "validate_ProductCreate rnd raw = Inl errs \<Longrightarrow>
   post_products rnd now raw db = (Inl (RequestValidationError errs), db)"
  by (simp add: post_products_def)

text \<open>The values that the root validator sees of an accepted payload.\<close>

lemma accepted_values:
  assumes "validate_ProductCreate rnd raw = Inr pd"
  shows "v_in_stock (fst (validate_fields field_name_create field_tags_create raw)) = Some (in_stock raw)"
    and "v_price (fst (validate_fields field_name_create field_tags_create raw)) = Some (price raw)"
    and "v_dimensions (fst (validate_fields field_name_create field_tags_create raw)) = Some (dimensions raw)"
    and "v_images (fst (validate_fields field_name_create field_tags_create raw)) = Some (images raw)"
  using assms unfolding validate_ProductCreate_Inr_iff snd_validate_fields_Nil
  by (simp_all add: fst_validate_fields)

lemma accepted_root:
  assumes "validate_ProductCreate rnd raw = Inr pd"
  shows "\<exists>vs. validate_business_rules rnd
        (fst (validate_fields field_name_create field_tags_create raw)) = Inr vs"
  using assms unfolding validate_ProductCreate_Inr_iff by blast

subsection \<open>Evaluating the examples\<close>

lemmas str_eval =
  ustr_def py_strip_def py_lower_def to_lower_def is_space_def py_title_def to_title_def
  is_cased_def

lemma usd_value: "dec_value (amount (usd cents)) = of_nat cents / 100"
  by (simp add: usd_def dec_value_def)

lemma digit_count_eval:
  "digit_count 1999 = 4" "digit_count 100000 = 6" "digit_count 100001 = 6"
  by (simp_all add: digit_count.simps)

lemma usd_valid:
  "validate_PriceSchema (usd 1999) = Inr (usd 1999)"
  "validate_PriceSchema (usd 100000) = Inr (usd 100000)"
  "validate_PriceSchema (usd 100001) = Inr (usd 100001)"
  by (simp_all add: validate_PriceSchema_def field_amount_def dec_value_def constr_decimal_def
      decimal_digits_def digit_count_eval field_currency_def regex_class_range_def
      upper_ascii_def validate_currency_code_def valid_currencies_def usd_def ustr_def)

lemma name_eval:
  "field_name_create (ustr ''  wireless mouse '') = Inr (ustr ''Wireless Mouse'')"
  "field_name_create (ustr ''Item'') = Inl GenericName"
  "field_name_create (ustr ''  ITEM '') = Inl GenericName"
  "field_name_create (ustr ''ART'' @ [205] @ ustr ''CULO'') = Inl GenericName"
  "field_name_create (ustr ''  a'') = Inr (ustr ''A'')"
  by (simp_all add: field_name_create_def field_name_def constr_length_def validate_name_def
      forbidden_words_def str_eval)

lemma sku_eval: "field_sku (ustr ''ABC-12345'') = Inr (ustr ''ABC-12345'')"
  by (simp add: field_sku_def regex_class_range_def sku_char_def ustr_def)

lemma tags_eval:
  "field_tags_create [ustr '' Red '', ustr ''OFFICE''] = Inr [ustr ''red'', ustr ''office'']"
  "field_tags_create [ustr '' Red '', ustr ''red''] = Inl [([], DuplicateTags)]"
  by (simp_all add: field_tags_create_def validate_tags_def item_errors_def item_values_def
      nested_errors_def validate_tags_uniqueness_def str_eval)

lemma absent_eval:
  "field_description None = Inr None" "field_dimensions None = Inr None"
  "field_images None = Inr None" "field_category_id None = Inr None"
  by (simp_all add: field_description_def field_dimensions_def field_images_def
      field_category_id_def)

lemmas body_eval =
  mouse_body_def validate_ProductCreate_def validate_fields_def name_eval sku_eval usd_valid
  tags_eval absent_eval field_errors_def nested_errors_def field_value_def
  validate_business_rules_def from_values_def usd_value

lemma mouse_body_valid: "validate_ProductCreate rnd mouse_body = Inr mouse"
  by (simp add: body_eval mouse_def)

lemma generic_cheap_rejected:
  "validate_ProductCreate rnd (mouse_body\<lparr>name := ustr ''Item'', price := usd 100000, in_stock := False\<rparr>) =
     Inl [([Key ''name''], GenericName)]"
  by (simp add: body_eval)








subsection \<open>The validators of the tags\<close>

lemma py_strip_Nil [simp]: "py_strip [] = []"
  by (simp add: py_strip_def)










section \<open>Facts about the endpoints\<close>

subsection \<open>Business validation\<close>

lemma query_first_found:
  "query_first (\<lambda>r. f r = v) db = None \<longleftrightarrow> v \<notin> f ` set (rows db)"
  "(\<exists>y. query_first (\<lambda>r. f r = v) db = Some y) \<longleftrightarrow> v \<in> f ` set (rows db)"
proof -
  show "query_first (\<lambda>r. f r = v) db = None \<longleftrightarrow> v \<notin> f ` set (rows db)"
    unfolding query_first_def find_None_iff by auto
  then show "(\<exists>y. query_first (\<lambda>r. f r = v) db = Some y) \<longleftrightarrow> v \<in> f ` set (rows db)"
    by (cases "query_first (\<lambda>r. f r = v) db") auto
qed

lemma key_sku_name: "ustr ''sku'' \<noteq> ustr ''name''"
  by (simp add: ustr_def)

lemma validate_business_constraints_cases:
  "validate_business_constraints db product_data =
     (if sku product_data \<in> db_sku ` set (rows db)
      then [(ustr ''sku'', ustr ''SKU ya existe en el sistema'')] else []) @
     (if name product_data \<in> db_name ` set (rows db)
      then [(ustr ''name'', ustr ''Ya existe un producto con este nombre'')] else [])"
  by (simp add: validate_business_constraints_def Let_def query_first_found key_sku_name)

lemma validate_business_constraints_Nil:
  "validate_business_constraints db product_data = [] \<longleftrightarrow>
     sku product_data \<notin> db_sku ` set (rows db) \<and> name product_data \<notin> db_name ` set (rows db)"
  by (simp add: validate_business_constraints_cases)



subsection \<open>The creation endpoint\<close>

lemma create_product_refused:
  "validate_business_constraints db product_data \<noteq> [] \<Longrightarrow>
   create_product now product_data db =
     (Inl (HTTPException 422 (BusinessErrors (validate_business_constraints db product_data))), db)"
  by (simp add: create_product_def)

text \<open>The row that the service inserts.\<close>

lemma service_inserts:
  assumes "sku product_data \<notin> db_sku ` set (rows db)"
  shows "\<exists>row. ProductService_create_product now product_data db =
       (to_response row, db\<lparr>rows := rows db @ [row], next_id := next_id db + 1\<rparr>) \<and>
     db_id row = Some (next_id db) \<and> db_name row = name product_data \<and>
     db_sku row = sku product_data \<and> db_description row = description product_data \<and>
     price_amount row = amount (price product_data) \<and>
     price_currency row = currency (price product_data) \<and> db_tags row = tags product_data \<and>
     db_dimensions row = dimensions product_data \<and>
     db_images row = (case images product_data of None \<Rightarrow> [] | Some imgs \<Rightarrow> imgs) \<and>
     db_in_stock row = in_stock product_data \<and> db_category_id row = category_id product_data \<and>
     db_created_at row = Some now \<and> db_updated_at row = None"
proof -
  let ?row = "\<lparr>db_id = Some (next_id db), db_name = name product_data,
    db_sku = sku product_data, db_description = description product_data,
    price_amount = amount (price product_data), price_currency = currency (price product_data),
    db_tags = tags product_data, db_dimensions = dimensions product_data,
    db_images = (case images product_data of None \<Rightarrow> [] | Some imgs \<Rightarrow> imgs),
    db_in_stock = in_stock product_data, db_category_id = category_id product_data,
    db_created_at = Some now, db_updated_at = None\<rparr>"
  from assms have "ProductService_create_product now product_data db =
      (to_response ?row, db\<lparr>rows := rows db @ [?row], next_id := next_id db + 1\<rparr>)"
    by (simp add: ProductService_create_product_def add_commit_refresh_def Let_def)
  then show ?thesis
    by (intro exI [of _ ?row]) simp
qed

lemma to_response_no_HTTPException: "to_response row \<noteq> Inl (HTTPException s d)"
  by (simp add: to_response_def Let_def split: prod.splits list.splits option.splits)

lemma create_product_accepted:
  assumes "validate_business_constraints db product_data = []"
  shows "\<exists>row. create_product now product_data db =
       (case to_response row of Inl e \<Rightarrow> Inl internal_server_error | Inr product \<Rightarrow> Inr product,
        db\<lparr>rows := rows db @ [row], next_id := next_id db + 1\<rparr>) \<and>
     db_id row = Some (next_id db) \<and> db_name row = name product_data \<and>
     db_sku row = sku product_data \<and> db_description row = description product_data \<and>
     price_amount row = amount (price product_data) \<and>
     price_currency row = currency (price product_data) \<and> db_tags row = tags product_data \<and>
     db_dimensions row = dimensions product_data \<and>
     db_images row = (case images product_data of None \<Rightarrow> [] | Some imgs \<Rightarrow> imgs) \<and>
     db_in_stock row = in_stock product_data \<and> db_category_id row = category_id product_data \<and>
     db_created_at row = Some now \<and> db_updated_at row = None"
proof -
  from assms have "sku product_data \<notin> db_sku ` set (rows db)"
    by (simp add: validate_business_constraints_Nil)
  from service_inserts [OF this, of now] obtain row where
    row: "ProductService_create_product now product_data db =
       (to_response row, db\<lparr>rows := rows db @ [row], next_id := next_id db + 1\<rparr>)"
    and fields: "db_id row = Some (next_id db) \<and> db_name row = name product_data \<and>
     db_sku row = sku product_data \<and> db_description row = description product_data \<and>
     price_amount row = amount (price product_data) \<and>
     price_currency row = currency (price product_data) \<and> db_tags row = tags product_data \<and>
     db_dimensions row = dimensions product_data \<and>
     db_images row = (case images product_data of None \<Rightarrow> [] | Some imgs \<Rightarrow> imgs) \<and>
     db_in_stock row = in_stock product_data \<and> db_category_id row = category_id product_data \<and>
     db_created_at row = Some now \<and> db_updated_at row = None"
    by blast
  have "create_product now product_data db =
       (case to_response row of Inl e \<Rightarrow> Inl internal_server_error | Inr product \<Rightarrow> Inr product,
        db\<lparr>rows := rows db @ [row], next_id := next_id db + 1\<rparr>)"
    using assms to_response_no_HTTPException [of row]
    by (cases "to_response row") (auto simp: create_product_def row split: exn.splits)
  with fields show ?thesis by blast
qed

lemma create_product_rows:
  "rows (snd (create_product now product_data db)) = rows db \<and>
     validate_business_constraints db product_data \<noteq> [] \<or>
   (\<exists>row. rows (snd (create_product now product_data db)) = rows db @ [row] \<and>
      db_sku row = sku product_data \<and> db_name row = name product_data \<and>
      validate_business_constraints db product_data = [])"
proof (cases "validate_business_constraints db product_data = []")
  case True
  from create_product_accepted [OF True, of now] show ?thesis
    using True by auto
next
  case False
  then show ?thesis by (simp add: create_product_refused)
qed

subsection \<open>The response of a created product\<close>

lemma field_tags_Inr [simp]: "field_tags v = Inr v"
  by (simp add: field_tags_def)

lemma field_images_Some_Nil: "field_images (Some []) = Inr (Some [])"
  by (simp add: field_images_def item_errors_def item_values_def)

lemma to_response_valid:
  assumes "3 \<le> length (db_name row)" and "length (db_name row) \<le> 100"
    and "field_sku (db_sku row) = Inr (db_sku row)"
    and "field_description (db_description row) = Inr (db_description row)"
    and "validate_PriceSchema \<lparr>amount = price_amount row, currency = price_currency row\<rparr> =
           Inr \<lparr>amount = price_amount row, currency = price_currency row\<rparr>"
    and "field_dimensions (db_dimensions row) = Inr (db_dimensions row)"
    and "field_images (Some (db_images row)) = Inr (Some (db_images row))"
    and "field_category_id (db_category_id row) = Inr (db_category_id row)"
    and "db_id row = Some i" and "db_created_at row = Some c"
  shows "to_response row =
     Inr \<lparr>name = db_name row, sku = db_sku row, description = db_description row,
          price = \<lparr>amount = price_amount row, currency = price_currency row\<rparr>,
          tags = db_tags row, dimensions = db_dimensions row, images = Some (db_images row),
          in_stock = db_in_stock row, category_id = db_category_id row,
          id' = i, created_at = c, updated_at = db_updated_at row\<rparr>"
proof -
  let ?base = "\<lparr>name = db_name row, sku = db_sku row, description = db_description row,
    price = \<lparr>amount = price_amount row, currency = price_currency row\<rparr>,
    tags = db_tags row, dimensions = db_dimensions row, images = Some (db_images row),
    in_stock = db_in_stock row, category_id = db_category_id row\<rparr>"
  have n: "field_name (name ?base) = Inr (db_name row)"
    using assms(1,2) by (simp add: field_name_Inr_iff)
  have t: "field_tags (tags ?base) = Inr (db_tags row)"
    by simp
  have e: "snd (validate_fields field_name field_tags ?base) = []"
    unfolding snd_validate_fields_Nil using n assms(3-8) by simp
  obtain vs where vf: "validate_fields field_name field_tags ?base = (vs, [])"
    using e by (cases "validate_fields field_name field_tags ?base") auto
  have v: "from_values vs ?base = Some ?base"
    using from_values_complete [OF n t e] vf by simp
  show ?thesis
    using v assms(9,10) by (simp add: to_response_def Let_def required_def vf)
qed

text \<open>The fields of an accepted payload pass the validators of \<open>ProductBase\<close> again.\<close>

lemma accepted_fields:
  assumes "validate_ProductCreate rnd raw = Inr pd"
  shows "field_sku (sku pd) = Inr (sku pd)"
    and "field_description (description pd) = Inr (description pd)"
    and "validate_PriceSchema (price pd) = Inr (price pd)"
    and "field_dimensions (dimensions pd) = Inr (dimensions pd)"
    and "field_images (images pd) = Inr (images pd)"
    and "field_category_id (category_id pd) = Inr (category_id pd)"
  using assms unfolding validate_ProductCreate_Inr_iff snd_validate_fields_Nil by auto

lemma create_product_created:
  assumes valid: "validate_ProductCreate rnd raw = Inr pd"
    and fresh: "validate_business_constraints db pd = []"
    and len: "3 \<le> length (name pd)" "length (name pd) \<le> 100"
  shows "\<exists>row. create_product now pd db =
     (Inr \<lparr>name = name pd, sku = sku pd, description = description pd, price = price pd,
           tags = tags pd, dimensions = dimensions pd,
           images = Some (case images pd of None \<Rightarrow> [] | Some imgs \<Rightarrow> imgs),
           in_stock = in_stock pd, category_id = category_id pd,
           id' = next_id db, created_at = now, updated_at = None\<rparr>,
      db\<lparr>rows := rows db @ [row], next_id := next_id db + 1\<rparr>) \<and>
     db_name row = name pd \<and> db_sku row = sku pd"
proof -
  from create_product_accepted [OF fresh, of now] obtain row where
    res: "create_product now pd db =
       (case to_response row of Inl e \<Rightarrow> Inl internal_server_error | Inr product \<Rightarrow> Inr product,
        db\<lparr>rows := rows db @ [row], next_id := next_id db + 1\<rparr>)"
    and row: "db_id row = Some (next_id db)" "db_name row = name pd" "db_sku row = sku pd"
      "db_description row = description pd" "price_amount row = amount (price pd)"
      "price_currency row = currency (price pd)" "db_tags row = tags pd"
      "db_dimensions row = dimensions pd"
      "db_images row = (case images pd of None \<Rightarrow> [] | Some imgs \<Rightarrow> imgs)"
      "db_in_stock row = in_stock pd" "db_category_id row = category_id pd"
      "db_created_at row = Some now" "db_updated_at row = None"
    by blast
  note ok = accepted_fields [OF valid]
  have img: "field_images (Some (db_images row)) = Inr (Some (db_images row))"
    using ok(5) by (cases "images pd") (simp_all add: row field_images_Some_Nil)
  have "to_response row =
     Inr \<lparr>name = db_name row, sku = db_sku row, description = db_description row,
          price = \<lparr>amount = price_amount row, currency = price_currency row\<rparr>,
          tags = db_tags row, dimensions = db_dimensions row, images = Some (db_images row),
          in_stock = db_in_stock row, category_id = db_category_id row,
          id' = next_id db, created_at = now, updated_at = db_updated_at row\<rparr>"
  proof (intro to_response_valid)
    have eta: "\<lparr>amount = amount (price pd), currency = currency (price pd)\<rparr> = price pd"
      by (cases "price pd") simp
    show "validate_PriceSchema \<lparr>amount = price_amount row, currency = price_currency row\<rparr> =
        Inr \<lparr>amount = price_amount row, currency = price_currency row\<rparr>"
      unfolding row eta by (rule ok(3))
  qed (use len ok img in \<open>simp_all add: row\<close>)
  moreover have "\<lparr>amount = amount (price pd), currency = currency (price pd)\<rparr> = price pd"
    by (cases "price pd") simp
  ultimately have "to_response row =
     Inr \<lparr>name = name pd, sku = sku pd, description = description pd, price = price pd,
           tags = tags pd, dimensions = dimensions pd,
           images = Some (case images pd of None \<Rightarrow> [] | Some imgs \<Rightarrow> imgs),
           in_stock = in_stock pd, category_id = category_id pd,
           id' = next_id db, created_at = now, updated_at = None\<rparr>"
    unfolding row by (simp only:)
  with res row(2,3) show ?thesis
    by (intro exI [of _ row]) simp
qed

subsection \<open>Evaluating the example table\<close>

lemma mouse_fields:
  "name mouse = ustr ''Wireless Mouse''" "sku mouse = ustr ''ABC-12345''"
  "images mouse = None" "tags mouse = [ustr ''red'', ustr ''office'']"
  by (simp_all add: mouse_def mouse_body_def)

lemma mouse_name_length: "3 \<le> length (name mouse)" "length (name mouse) \<le> 100"
  by (simp_all add: mouse_fields) (simp_all add: ustr_def)

lemma mouse_fresh: "validate_business_constraints empty_db mouse = []"
  by (simp add: validate_business_constraints_Nil empty_db_def)

lemma mouse_known:
  "validate_business_constraints mouse_db mouse =
     [(ustr ''sku'', ustr ''SKU ya existe en el sistema''),
      (ustr ''name'', ustr ''Ya existe un producto con este nombre'')]"
  by (simp add: validate_business_constraints_cases mouse_db_def mouse_row_def mouse_fields)

lemma keyboard_unknown: "validate_business_constraints mouse_db keyboard = []"
  by (simp add: validate_business_constraints_Nil mouse_db_def mouse_row_def keyboard_def)
    (simp add: ustr_def)

subsection \<open>Uniqueness of SKU and name\<close>

lemma create_product_keeps_unique:
  assumes "distinct (map db_sku (rows db))" and "distinct (map db_name (rows db))"
  shows "distinct (map db_sku (rows (snd (create_product now product_data db))))"
    and "distinct (map db_name (rows (snd (create_product now product_data db))))"
  using create_product_rows [of now product_data db] assms
  by (auto simp: validate_business_constraints_Nil)


subsection \<open>The name of an accepted payload\<close>


lemma post_products_accepted:
  "validate_ProductCreate rnd raw = Inr pd \<Longrightarrow>
   post_products rnd now raw db = create_product now pd db"
  by (simp add: post_products_def)



subsection \<open>A name that is too short for the response\<close>

lemma to_response_short_name:
  assumes "length (db_name row) < 3"
  shows "\<exists>errs. to_response row = Inl (ValidationError errs)"
proof -
  let ?base = "\<lparr>name = db_name row, sku = db_sku row, description = db_description row,
    price = \<lparr>amount = price_amount row, currency = price_currency row\<rparr>,
    tags = db_tags row, dimensions = db_dimensions row, images = Some (db_images row),
    in_stock = db_in_stock row, category_id = db_category_id row\<rparr>"
  have "\<not> (\<exists>n. field_name (name ?base) = Inr n)"
    using assms by (simp add: field_name_Inr_iff)
  then have "snd (validate_fields field_name field_tags ?base) \<noteq> []"
    unfolding snd_validate_fields_Nil by blast
  then obtain vs e es where "validate_fields field_name field_tags ?base = (vs, e # es)"
    by (cases "validate_fields field_name field_tags ?base"; cases "snd (validate_fields field_name field_tags ?base)") auto
  then show ?thesis
    by (simp add: to_response_def Let_def)
qed

lemma short_name_eval:
  "validate_ProductCreate rnd (mouse_body\<lparr>name := ustr ''  a''\<rparr>) = Inr (mouse\<lparr>name := ustr ''A''\<rparr>)"
  by (simp add: body_eval mouse_def)

text \<open>
  A body whose name is long enough before it is stripped and too short after: the
  payload is accepted and the row inserted, and the request is answered 500, because the
  response cannot be built.
\<close>

lemma short_name_inserted_and_500:
  "fst (post_products Fin 7 (mouse_body\<lparr>name := ustr ''  a''\<rparr>) empty_db) = Inl internal_server_error"
  "map db_name (rows (snd (post_products Fin 7 (mouse_body\<lparr>name := ustr ''  a''\<rparr>) empty_db))) = [ustr ''A'']"
proof -
  let ?pd = "mouse\<lparr>name := ustr ''A''\<rparr>"
  have fresh: "validate_business_constraints empty_db ?pd = []"
    by (simp add: validate_business_constraints_Nil empty_db_def)
  from create_product_accepted [OF fresh, of 7] obtain row where
    res: "create_product 7 ?pd empty_db =
       (case to_response row of Inl e \<Rightarrow> Inl internal_server_error | Inr product \<Rightarrow> Inr product,
        empty_db\<lparr>rows := rows empty_db @ [row], next_id := next_id empty_db + 1\<rparr>)"
    and row: "db_name row = name ?pd"
    by blast
  have "length (db_name row) < 3"
    by (simp add: row ustr_def)
  from to_response_short_name [OF this] res
  have "create_product 7 ?pd empty_db =
       (Inl internal_server_error,
        empty_db\<lparr>rows := rows empty_db @ [row], next_id := next_id empty_db + 1\<rparr>)"
    by auto
  then show "fst (post_products Fin 7 (mouse_body\<lparr>name := ustr ''  a''\<rparr>) empty_db) =
      Inl internal_server_error"
    and "map db_name (rows (snd (post_products Fin 7 (mouse_body\<lparr>name := ustr ''  a''\<rparr>) empty_db))) =
      [ustr ''A'']"
    by (simp_all add: post_products_accepted [OF short_name_eval] row empty_db_def)
qed

subsection \<open>The example product, created\<close>

lemma create_mouse:
  "create_product 7 mouse empty_db =
     (Inr \<lparr>name = ustr ''Wireless Mouse'', sku = ustr ''ABC-12345'', description = None,
           price = usd 1999, tags = [ustr ''red'', ustr ''office''], dimensions = None,
           images = Some [], in_stock = True, category_id = None,
           id' = 1, created_at = 7, updated_at = None\<rparr>,
      mouse_db)"
proof -
  from create_product_accepted [OF mouse_fresh, of 7] obtain row where
    db: "snd (create_product 7 mouse empty_db) =
       empty_db\<lparr>rows := rows empty_db @ [row], next_id := next_id empty_db + 1\<rparr>"
    and row: "db_id row = Some (next_id empty_db)" "db_name row = name mouse"
      "db_sku row = sku mouse" "db_description row = description mouse"
      "price_amount row = amount (price mouse)" "price_currency row = currency (price mouse)"
      "db_tags row = tags mouse" "db_dimensions row = dimensions mouse"
      "db_images row = (case images mouse of None \<Rightarrow> [] | Some imgs \<Rightarrow> imgs)"
      "db_in_stock row = in_stock mouse" "db_category_id row = category_id mouse"
      "db_created_at row = Some 7" "db_updated_at row = None"
    by auto
  have "row = mouse_row"
    by (rule Product.equality)
      (simp_all add: row mouse_row_def mouse_def mouse_body_def empty_db_def usd_def)
  with db have "snd (create_product 7 mouse empty_db) = mouse_db"
    by (simp add: mouse_db_def empty_db_def)
  moreover from create_product_created [OF mouse_body_valid mouse_fresh mouse_name_length, of 7]
  have "fst (create_product 7 mouse empty_db) =
     Inr \<lparr>name = ustr ''Wireless Mouse'', sku = ustr ''ABC-12345'', description = None,
           price = usd 1999, tags = [ustr ''red'', ustr ''office''], dimensions = None,
           images = Some [], in_stock = True, category_id = None,
           id' = 1, created_at = 7, updated_at = None\<rparr>"
    by (auto simp: mouse_def mouse_body_def empty_db_def)
  ultimately show ?thesis
    by (metis prod.collapse)
qed

section \<open>The rate limiter counts in fixed windows\<close>




section \<open>The authentication tiers\<close>










section \<open>Out of stock, at most 1000\<close>

text \<open>
  Claim C5. A payload that is out of stock and whose price is above 1000 is rejected by
  structural validation, and the request is answered before the endpoint runs, with the
  table as it was. The rule itself, on the values the root validator receives: it
  raises its error when the product is out of stock and the price is above 1000, and
  does not raise it when the product is out of stock and the price is at most 1000;
  whatever else such a payload is rejected for, the error of this rule is not among its
  errors.
\<close>

theorem out_of_stock_price_rule:
  "(\<not> in_stock raw \<and> dec_value (amount (price raw)) > 1000 \<longrightarrow>
      (\<exists>errs. validate_ProductCreate rnd raw = Inl errs \<and>
         post_products rnd now raw db = (Inl (RequestValidationError errs), db))) \<and>
   (v_in_stock vs = Some False \<and> v_price vs = Some p \<and> dec_value (amount p) > 1000 \<longrightarrow>
      validate_business_rules rnd vs = Inl OutOfStockPrice) \<and>
   (v_in_stock vs = Some False \<and> v_price vs = Some p \<and> dec_value (amount p) \<le> 1000 \<longrightarrow>
      validate_business_rules rnd vs \<noteq> Inl OutOfStockPrice) \<and>
   (\<not> in_stock raw \<and> dec_value (amount (price raw)) \<le> 1000 \<longrightarrow>
      (\<forall>errs. validate_ProductCreate rnd raw = Inl errs \<longrightarrow>
         ([Key ''__root__''], OutOfStockPrice) \<notin> set errs))"
proof (intro conjI impI allI)
  assume a: "\<not> in_stock raw \<and> dec_value (amount (price raw)) > 1000"
  have "\<not> (\<exists>pd. validate_ProductCreate rnd raw = Inr pd)"
  proof
    assume "\<exists>pd. validate_ProductCreate rnd raw = Inr pd"
    then obtain pd where pd: "validate_ProductCreate rnd raw = Inr pd" ..
    from accepted_values(1,2) [OF pd] a
    have "validate_business_rules rnd
        (fst (validate_fields field_name_create field_tags_create raw)) = Inl OutOfStockPrice"
      by (simp add: validate_business_rules_stock)
    with accepted_root [OF pd] show False by simp
  qed
  with rejected_or_accepted [of rnd raw] obtain errs where "validate_ProductCreate rnd raw = Inl errs"
    by blast
  then show "\<exists>errs. validate_ProductCreate rnd raw = Inl errs \<and>
         post_products rnd now raw db = (Inl (RequestValidationError errs), db)"
    by (auto simp: post_products_rejected)
next
  assume "v_in_stock vs = Some False \<and> v_price vs = Some p \<and> dec_value (amount p) > 1000"
  then show "validate_business_rules rnd vs = Inl OutOfStockPrice"
    by (simp add: validate_business_rules_stock)
next
  assume "v_in_stock vs = Some False \<and> v_price vs = Some p \<and> dec_value (amount p) \<le> 1000"
  then show "validate_business_rules rnd vs \<noteq> Inl OutOfStockPrice"
    by (simp add: validate_business_rules_stock)
next
  fix errs
  assume a: "\<not> in_stock raw \<and> dec_value (amount (price raw)) \<le> 1000"
    and e: "validate_ProductCreate rnd raw = Inl errs"
  have "v_price (fst (validate_fields field_name_create field_tags_create raw)) = Some q \<Longrightarrow>
      q = price raw" for q
    by (auto simp: fst_validate_fields field_value_def split: sum.splits
        dest: validate_PriceSchema_Inr)
  with a have "validate_business_rules rnd
      (fst (validate_fields field_name_create field_tags_create raw)) \<noteq> Inl OutOfStockPrice"
    by (auto simp: validate_business_rules_stock)
  then show "([Key ''__root__''], OutOfStockPrice) \<notin> set errs"
    by (simp add: root_error_iff [OF e])
qed

text \<open>
  The theorem on the example payload: out of stock at 1000.01 it is rejected; the rule
  fires on the values at 1000.01 and not at 1000.00; and the payload that is out of stock
  at 1000.00 under a generic name is rejected for its name only.
\<close>

theorem out_of_stock_price_rule_witness:
  "(\<exists>errs. validate_ProductCreate Fin (mouse_body\<lparr>price := usd 100001, in_stock := False\<rparr>) = Inl errs \<and>
      post_products Fin 7 (mouse_body\<lparr>price := usd 100001, in_stock := False\<rparr>) empty_db =
        (Inl (RequestValidationError errs), empty_db)) \<and>
   validate_business_rules Fin (out_of_stock_values 100001) = Inl OutOfStockPrice \<and>
   validate_business_rules Fin (out_of_stock_values 100000) \<noteq> Inl OutOfStockPrice \<and>
   ([Key ''__root__''], OutOfStockPrice) \<notin> set [([Key ''name''], GenericName)]"
proof -
  let ?dear = "mouse_body\<lparr>price := usd 100001, in_stock := False\<rparr>"
  let ?generic = "mouse_body\<lparr>name := ustr ''Item'', price := usd 100000, in_stock := False\<rparr>"
  have dear: "\<not> in_stock ?dear \<and> dec_value (amount (price ?dear)) > 1000"
    by (simp add: usd_value)
  have dear_values: "v_in_stock (out_of_stock_values 100001) = Some False \<and>
      v_price (out_of_stock_values 100001) = Some (usd 100001) \<and>
      dec_value (amount (usd 100001)) > 1000"
    by (simp add: out_of_stock_values_def usd_value)
  have limit_values: "v_in_stock (out_of_stock_values 100000) = Some False \<and>
      v_price (out_of_stock_values 100000) = Some (usd 100000) \<and>
      dec_value (amount (usd 100000)) \<le> 1000"
    by (simp add: out_of_stock_values_def usd_value)
  have generic: "\<not> in_stock ?generic \<and> dec_value (amount (price ?generic)) \<le> 1000"
    by (simp add: usd_value)
  show ?thesis
    using
      out_of_stock_price_rule [of ?dear Fin 7 empty_db, THEN conjunct1, THEN mp, OF dear]
      out_of_stock_price_rule [of _ _ _ _ "out_of_stock_values 100001" "usd 100001",
        THEN conjunct2, THEN conjunct1, THEN mp, OF dear_values]
      out_of_stock_price_rule [of _ _ _ _ "out_of_stock_values 100000" "usd 100000",
        THEN conjunct2, THEN conjunct2, THEN conjunct1, THEN mp, OF limit_values]
      out_of_stock_price_rule [of ?generic Fin, THEN conjunct2, THEN conjunct2, THEN conjunct2,
        THEN mp, OF generic, THEN spec, THEN mp, OF generic_cheap_rejected]
    by (intro conjI)
qed

section \<open>Large products need an image\<close>



section \<open>Tags\<close>



section \<open>Validation without creation\<close>

text \<open>
  Claim C8. The validation endpoint leaves the database as it is, and a second call
  with the same input returns what the first call returned: the same error mapping, the
  same \<open>valid\<close> flag and the same message, which are those of the business validation
  of the input against the database. The same holds for the route, which validates the
  body first.
\<close>

theorem validate_product_pure:
  "snd (validate_product product_data db) = db \<and>
   validate_product product_data (snd (validate_product product_data db)) =
     validate_product product_data db \<and>
   fst (validate_product product_data db) =
     Inr \<lparr>valid = (validate_business_constraints db product_data = []),
          errors = (if validate_business_constraints db product_data = [] then None
                    else Some (validate_business_constraints db product_data)),
          message = (if validate_business_constraints db product_data = []
                     then ustr ''Datos v'' @ [225] @ ustr ''lidos''
                     else ustr ''Se encontraron errores'')\<rparr> \<and>
   snd (post_products_validate rnd body db) = db \<and>
   post_products_validate rnd body (snd (post_products_validate rnd body db)) =
     post_products_validate rnd body db"
proof -
  have pure: "snd (validate_product product_data db) = db" for product_data
    by (simp add: validate_product_def Let_def)
  moreover have "fst (validate_product product_data db) =
     Inr \<lparr>valid = (validate_business_constraints db product_data = []),
          errors = (if validate_business_constraints db product_data = [] then None
                    else Some (validate_business_constraints db product_data)),
          message = (if validate_business_constraints db product_data = []
                     then ustr ''Datos v'' @ [225] @ ustr ''lidos''
                     else ustr ''Se encontraron errores'')\<rparr>"
    by (simp add: validate_product_def Let_def)
  moreover have "snd (post_products_validate rnd body db) = db"
    by (simp add: post_products_validate_def pure split: sum.splits)
  ultimately show ?thesis by simp
qed

text \<open>
  On the table that holds the example product: validating the same product reports
  both errors, twice, and validating the second product reports none.
\<close>

theorem validate_product_pure_witness:
  "snd (validate_product mouse mouse_db) = mouse_db \<and>
   validate_product mouse (snd (validate_product mouse mouse_db)) = validate_product mouse mouse_db \<and>
   fst (validate_product mouse mouse_db) =
     Inr \<lparr>valid = False,
          errors = Some [(ustr ''sku'', ustr ''SKU ya existe en el sistema''),
                         (ustr ''name'', ustr ''Ya existe un producto con este nombre'')],
          message = ustr ''Se encontraron errores''\<rparr> \<and>
   fst (validate_product keyboard mouse_db) =
     Inr \<lparr>valid = True, errors = None, message = ustr ''Datos v'' @ [225] @ ustr ''lidos''\<rparr>"
  using validate_product_pure [of mouse mouse_db] validate_product_pure [of keyboard mouse_db]
  by (simp add: mouse_known keyboard_unknown)

section \<open>SKU and name stay unique\<close>

text \<open>
  Claim C2. If the SKUs of the products are pairwise different and their names are
  pairwise different, then they are so again after any sequence of create requests,
  served one after the other.
\<close>

theorem sku_and_name_stay_unique:
  "distinct (map db_sku (rows db)) \<and> distinct (map db_name (rows db)) \<Longrightarrow>
   distinct (map db_sku (rows (create_all reqs db))) \<and>
   distinct (map db_name (rows (create_all reqs db)))"
proof (induction reqs arbitrary: db)
  case Nil
  then show ?case by simp
next
  case (Cons req reqs)
  obtain now product_data where req: "req = (now, product_data)"
    by (cases req)
  from Cons.prems create_product_keeps_unique [of db now product_data]
  have "distinct (map db_sku (rows (snd (create_product now product_data db)))) \<and>
      distinct (map db_name (rows (snd (create_product now product_data db))))"
    by simp
  from Cons.IH [OF this] show ?case
    by (simp add: req)
qed

text \<open>
  The theorem from the empty table, for the example product created twice and the
  second product created after it.
\<close>

theorem sku_and_name_stay_unique_witness:
  "distinct (map db_sku (rows (create_all [(7, mouse), (8, mouse), (9, keyboard)] empty_db))) \<and>
   distinct (map db_name (rows (create_all [(7, mouse), (8, mouse), (9, keyboard)] empty_db)))"
proof -
  have "distinct (map db_sku (rows empty_db)) \<and> distinct (map db_name (rows empty_db))"
    by (simp add: empty_db_def)
  then show ?thesis
    by (rule sku_and_name_stay_unique)
qed

section \<open>Business validation comes before creation\<close>



section \<open>The name is normalized first\<close>



section \<open>The response mirrors the input\<close>




end
